theory Spec2Isabelle
  imports Complex_Main "HOL-Library.AList"
begin

section \<open>The home page's page parameters (zerver/lib/home.py)\<close>

text \<open>
  A shallow embedding of \<^verbatim>\<open>zerver/lib/home.py\<close>: the helpers
  \<^verbatim>\<open>get_furthest_read_time\<close>, \<^verbatim>\<open>get_bot_types\<close>,
  \<^verbatim>\<open>promote_sponsoring_zulip_in_realm\<close>, \<^verbatim>\<open>get_billing_info\<close>,
  \<^verbatim>\<open>get_user_permission_info\<close> and the assembler
  \<^verbatim>\<open>build_page_params_for_home_page_load\<close>. Everything the module reads from
  outside itself (Django settings, model class constants, the database tables, the event
  subsystem, the localisation helpers, the clock) is an explicit argument.
\<close>

subsection \<open>Python values and dictionaries\<close>

text \<open>
  The values that end up in \<^verbatim>\<open>page_params\<close>. A Python dict keeps its keys in
  insertion order and an assignment to an existing key keeps the key's position, which is
  what \<^const>\<open>AList.update\<close> does on an association list; \<^const>\<open>map_of\<close> reads a
  key. Values are trees: two keys of one dict are taken not to share a mutable object.
\<close>

datatype pyval =
    PNone
  | PBool bool
  | PInt int
  | PFloat real
  | PStr string
  | PList "pyval list"
  | PDict "(string \<times> pyval) list"

type_synonym pydict = "(string \<times> pyval) list"

text \<open>The exceptions the module can raise or let through.\<close>

datatype error =
    KeyError string
  | TypeError
  | IndexError
  | AssertionError
  | UpstreamError string

text \<open>\<^verbatim>\<open>d[k]\<close> on a dict: KeyError when the key is missing.\<close>

definition getitem :: "pydict \<Rightarrow> string \<Rightarrow> error + pyval" where
  "getitem d k = (case map_of d k of None \<Rightarrow> Inl (KeyError k) | Some v \<Rightarrow> Inr v)"

text \<open>
  \<^verbatim>\<open>v[k]\<close> with a string key on any value: only a dict can be subscripted that
  way, every other value raises TypeError.
\<close>

definition subscript :: "pyval \<Rightarrow> string \<Rightarrow> error + pyval" where
  "subscript v k = (case v of PDict d \<Rightarrow> getitem d k | _ \<Rightarrow> Inl TypeError)"

subsection \<open>Settings, model classes and rows\<close>

text \<open>The attributes of \<^verbatim>\<open>django.conf.settings\<close> that the module reads.\<close>

record settings =
  TEST_SUITE :: bool
  HOME_NOT_LOGGED_IN :: string
  WARN_NO_EMAIL :: bool
  SEARCH_PILLS_ENABLED :: bool
  CORPORATE_ENABLED :: bool
  PROMOTE_SPONSORING_ZULIP :: bool
  TWO_FACTOR_AUTHENTICATION_ENABLED :: bool

text \<open>
  The class constants of \<^verbatim>\<open>Realm\<close> and \<^verbatim>\<open>UserProfile\<close>
  (\<^verbatim>\<open>zerver.models\<close>), which the module only names: they are parameters.
\<close>

record model_consts =
  LIMITED :: int
  STANDARD_FREE :: int
  SELF_HOSTED :: int
  COLOR_SCHEME_AUTOMATIC :: int
  BOT_TYPES :: "(int \<times> string) list"

record Realm =
  realm_id :: int
  plan_type :: int
  webathena_enabled :: bool

text \<open>
  A user row with the attributes and properties the module reads;
  \<^verbatim>\<open>has_billing_access\<close>, \<^verbatim>\<open>is_guest\<close>, \<^verbatim>\<open>is_realm_admin\<close>,
  \<^verbatim>\<open>is_realm_owner\<close> and \<^verbatim>\<open>allowed_bot_types\<close> are properties of the
  model class, read here as the values they return.
\<close>

record UserProfile =
  user_id :: int
  color_scheme :: int
  is_guest :: bool
  is_realm_admin :: bool
  is_realm_owner :: bool
  has_billing_access :: bool
  allowed_bot_types :: "int list"
  realm :: Realm

record BillingInfo =
  show_billing :: bool
  show_plans :: bool

record UserPermissionInfo =
  color_scheme :: int
  is_guest :: bool
  is_realm_admin :: bool
  is_realm_owner :: bool
  show_webathena :: bool

subsection \<open>The billing store\<close>

text \<open>
  \<^verbatim>\<open>corporate.models\<close>: a customer row, the plan rows with their foreign key to
  a customer, and \<^verbatim>\<open>get_customer_by_realm\<close>, which returns the realm's customer
  or None.
\<close>

record Customer =
  customer_id :: int
  sponsorship_pending :: bool

record CustomerPlan =
  plan_id :: int
  customer :: int

record billing_store =
  get_customer_by_realm :: "Realm \<Rightarrow> Customer option"
  customer_plans :: "CustomerPlan list"

text \<open>\<^verbatim>\<open>CustomerPlan.objects.filter(customer=customer).exists()\<close>\<close>

definition customer_plan_exists :: "billing_store \<Rightarrow> Customer \<Rightarrow> bool" where
  "customer_plan_exists store c =
     (filter (\<lambda>p. customer p = customer_id c) (customer_plans store) \<noteq> [])"

definition get_billing_info ::
  "settings \<Rightarrow> model_consts \<Rightarrow> billing_store \<Rightarrow> UserProfile option \<Rightarrow> BillingInfo" where
  "get_billing_info s mc store user_profile =
     (case (CORPORATE_ENABLED s, user_profile) of
        (True, Some u) \<Rightarrow>
          \<lparr>show_billing =
             (if has_billing_access u then
                (case get_customer_by_realm store (realm u) of
                   None \<Rightarrow> False
                 | Some c \<Rightarrow>
                     if sponsorship_pending c then True
                     else if customer_plan_exists store c then True
                     else False)
              else False),
           show_plans =
             (if \<not> UserProfile.is_guest u \<and> plan_type (realm u) = LIMITED mc
              then True else False)\<rparr>
      | _ \<Rightarrow> \<lparr>show_billing = False, show_plans = False\<rparr>)"

definition promote_sponsoring_zulip_in_realm :: "settings \<Rightarrow> model_consts \<Rightarrow> Realm \<Rightarrow> bool" where
  "promote_sponsoring_zulip_in_realm s mc r =
     (if \<not> PROMOTE_SPONSORING_ZULIP s then False
      else List.member [STANDARD_FREE mc, SELF_HOSTED mc] (plan_type r))"

definition get_user_permission_info ::
  "model_consts \<Rightarrow> UserProfile option \<Rightarrow> UserPermissionInfo" where
  "get_user_permission_info mc user_profile =
     (case user_profile of
        Some u \<Rightarrow>
          \<lparr>color_scheme = UserProfile.color_scheme u,
           is_guest = UserProfile.is_guest u,
           is_realm_admin = UserProfile.is_realm_admin u,
           is_realm_owner = UserProfile.is_realm_owner u,
           show_webathena = webathena_enabled (realm u)\<rparr>
      | None \<Rightarrow>
          \<lparr>color_scheme = COLOR_SCHEME_AUTOMATIC mc,
           is_guest = False,
           is_realm_admin = False,
           is_realm_owner = False,
           show_webathena = False\<rparr>)"

text \<open>
  \<^verbatim>\<open>get_bot_types\<close>: empty for a spectator, otherwise one dict per entry of
  \<^verbatim>\<open>UserProfile.BOT_TYPES\<close>, in its order.
\<close>

definition get_bot_types :: "model_consts \<Rightarrow> UserProfile option \<Rightarrow> pyval list" where
  "get_bot_types mc user_profile =
     (case user_profile of
        None \<Rightarrow> []
      | Some u \<Rightarrow>
          map (\<lambda>(type_id, name).
                 PDict [(''type_id'', PInt type_id),
                        (''name'', PStr name),
                        (''allowed'', PBool (List.member (allowed_bot_types u) type_id))])
              (BOT_TYPES mc))"

subsection \<open>The furthest read time\<close>

text \<open>
  \<^verbatim>\<open>last_visit\<close> is a timezone-aware datetime that Django reads from the
  database in UTC: its \<^verbatim>\<open>utcoffset()\<close> is zero, so \<^verbatim>\<open>utctimetuple()\<close>
  is the first six fields as they are, without the microseconds.
  \<^verbatim>\<open>calendar.timegm\<close> is Python's: the days from 1970-01-01 to the date by the
  proleptic Gregorian ordinal, then hours, minutes and seconds.
\<close>

record datetime =
  year :: int
  month :: int
  day :: int
  hour :: int
  minute :: int
  second :: int
  microsecond :: int

definition utctimetuple :: "datetime \<Rightarrow> int \<times> int \<times> int \<times> int \<times> int \<times> int" where
  "utctimetuple d = (year d, month d, day d, hour d, minute d, second d)"

definition is_leap :: "int \<Rightarrow> bool" where
  "is_leap y \<longleftrightarrow> y mod 4 = 0 \<and> (y mod 100 \<noteq> 0 \<or> y mod 400 = 0)"

definition days_before_year :: "int \<Rightarrow> int" where
  "days_before_year y' =
     (let y = y' - 1 in y * 365 + y div 4 - y div 100 + y div 400)"

text \<open>A datetime's month is between 1 and 12, where the table is read.\<close>

definition days_before_month :: "int \<Rightarrow> int \<Rightarrow> int" where
  "days_before_month y m =
     [0, 31, 59, 90, 120, 151, 181, 212, 243, 273, 304, 334] ! nat (m - 1)
       + (if m > 2 \<and> is_leap y then 1 else 0)"

definition toordinal :: "int \<Rightarrow> int \<Rightarrow> int \<Rightarrow> int" where
  "toordinal y m d = days_before_year y + days_before_month y m + d"

definition EPOCH_ORD :: int where
  "EPOCH_ORD = toordinal 1970 1 1"

definition timegm :: "int \<times> int \<times> int \<times> int \<times> int \<times> int \<Rightarrow> int" where
  "timegm t =
     (case t of (y, m, d, hh, mm, ss) \<Rightarrow>
        let days = toordinal y m 1 - EPOCH_ORD + d - 1;
            hours = days * 24 + hh;
            minutes = hours * 60 + mm;
            seconds = minutes * 60 + ss
        in seconds)"

record UserActivity =
  last_visit :: datetime

subsection \<open>Streams, messages and the collaborators\<close>

record Stream =
  name :: string
  recipient :: int

record Message =
  msg_id :: int
  recipient :: int

record HttpRequest =
  path_info :: string

text \<open>
  What the module calls outside itself, as the values and functions one build sees:
  the clock (\<^verbatim>\<open>time.time()\<close>), the activity table, the request notes, the
  event subsystem (\<^verbatim>\<open>do_events_register\<close>, \<^verbatim>\<open>fetch_initial_state_data\<close>
  and \<^verbatim>\<open>post_process_state\<close>, which may fail and whose results are dicts;
  \<^verbatim>\<open>post_process_state\<close> changes the dict it is given and the changed dict is
  its result here), the localisation helpers, the two-factor lookup and the message table.
  The arguments of the three event functions are, in the order of the source's call,
  those the source passes. \<^verbatim>\<open>get_and_set_request_language\<close> also records the
  language on the request; only the language it returns reaches the page parameters.
\<close>

record env =
  time_time :: real
  get_latest_update_message_flag_activity :: "UserProfile \<Rightarrow> UserActivity option"
  request_notes_client :: "HttpRequest \<Rightarrow> string option"
  do_events_register ::
    "UserProfile \<Rightarrow> string \<Rightarrow> bool \<Rightarrow> bool \<Rightarrow> bool \<Rightarrow> pydict \<Rightarrow> string list list \<Rightarrow> bool
       \<Rightarrow> error + pydict"
  fetch_initial_state_data ::
    "UserProfile option \<Rightarrow> Realm \<Rightarrow> pyval \<Rightarrow> pyval \<Rightarrow> bool \<Rightarrow> pyval \<Rightarrow> pyval \<Rightarrow> bool \<Rightarrow> bool \<Rightarrow> bool
       \<Rightarrow> error + pydict"
  post_process_state :: "UserProfile option \<Rightarrow> pydict \<Rightarrow> bool \<Rightarrow> error + pydict"
  get_language_from_path :: "string \<Rightarrow> string option"
  get_and_set_request_language :: "HttpRequest \<Rightarrow> pyval \<Rightarrow> string option \<Rightarrow> string"
  get_language_list :: pyval
  get_language_translation_data :: "string \<Rightarrow> pyval"
  get_apps_page_url :: string
  default_device :: "UserProfile option \<Rightarrow> string option"
  messages :: "Message list"

definition get_furthest_read_time :: "env \<Rightarrow> UserProfile option \<Rightarrow> pyval" where
  "get_furthest_read_time e user_profile =
     (case user_profile of
        None \<Rightarrow> PFloat (time_time e)
      | Some u \<Rightarrow>
          (case get_latest_update_message_flag_activity e u of
             None \<Rightarrow> PNone
           | Some user_activity \<Rightarrow> PInt (timegm (utctimetuple (last_visit user_activity)))))"

subsection \<open>The narrow override\<close>

text \<open>
  \<^verbatim>\<open>Message.objects.filter(recipient=recipient).order_by("id").reverse()[0].id\<close>:
  the rows of the recipient, by ascending id, reversed; reading element 0 of an empty
  result raises IndexError.
\<close>

definition latest_message_id :: "Message list \<Rightarrow> int \<Rightarrow> error + int" where
  "latest_message_id msgs r =
     (case rev (sort_key msg_id (filter (\<lambda>m. Message.recipient m = r) msgs)) of
        [] \<Rightarrow> Inl IndexError
      | m # _ \<Rightarrow> Inr (msg_id m))"

text \<open>\<^verbatim>\<open>dict(operator=term[0], operand=term[1])\<close>\<close>

definition narrow_term :: "string list \<Rightarrow> error + pyval" where
  "narrow_term term =
     (case term of
        a # b # _ \<Rightarrow> Inr (PDict [(''operator'', PStr a), (''operand'', PStr b)])
      | _ \<Rightarrow> Inl IndexError)"

text \<open>A list comprehension whose element expression may raise: the first error ends it.\<close>

fun collect :: "(error + 'a) list \<Rightarrow> error + 'a list" where
  "collect [] = Inr []"
| "collect (Inl err # _) = Inl err"
| "collect (Inr x # rest) =
     (case collect rest of Inl err \<Rightarrow> Inl err | Inr xs \<Rightarrow> Inr (x # xs))"

text \<open>
  Lines 226 to 231, the \<^verbatim>\<open>try\<close> around the lookup of the latest message:
  only IndexError is caught, and it gives \<^verbatim>\<open>-1\<close>.
\<close>

definition narrow_max_message_id :: "Message list \<Rightarrow> Stream \<Rightarrow> error + int" where
  "narrow_max_message_id msgs narrow_stream =
     (let recipient = Stream.recipient narrow_stream in
      case latest_message_id msgs recipient of
        Inl IndexError \<Rightarrow> Inr (- 1)
      | Inl err \<Rightarrow> Inl err
      | Inr i \<Rightarrow> Inr i)"

text \<open>
  The body of \<^verbatim>\<open>if narrow_stream is not None:\<close>, on the page parameters built so
  far.
\<close>

definition narrow_override ::
  "Message list \<Rightarrow> pydict \<Rightarrow> Stream \<Rightarrow> string option \<Rightarrow> string list list \<Rightarrow> error + pydict" where
  "narrow_override msgs page_params narrow_stream narrow_topic narrow =
     (case narrow_max_message_id msgs narrow_stream of
        Inl err \<Rightarrow> Inl err
      | Inr max_message_id \<Rightarrow>
          (let page_params = AList.update ''narrow_stream'' (PStr (name narrow_stream)) page_params;
               page_params =
                 (case narrow_topic of
                    Some topic \<Rightarrow> AList.update ''narrow_topic'' (PStr topic) page_params
                  | None \<Rightarrow> page_params)
           in (case collect (map narrow_term narrow) of
                 Inl err \<Rightarrow> Inl err
               | Inr terms \<Rightarrow>
                   (let page_params = AList.update ''narrow'' (PList terms) page_params;
                        page_params =
                          AList.update ''max_message_id'' (PInt max_message_id) page_params
                    in (case getitem page_params ''user_settings'' of
                          Inl err \<Rightarrow> Inl err
                        | Inr user_settings \<Rightarrow>
                            (case user_settings of
                               PDict d \<Rightarrow>
                                 Inr (AList.update ''user_settings''
                                        (PDict (AList.update ''enable_desktop_notifications''
                                                  (PBool False) d))
                                        page_params)
                             | _ \<Rightarrow> Inl AssertionError))))))"

subsection \<open>The assembler\<close>

definition client_capabilities :: pydict where
  "client_capabilities =
     [(''notification_settings_null'', PBool True),
      (''bulk_message_deletion'', PBool True),
      (''user_avatar_url_field_optional'', PBool True),
      (''stream_typing_notifications'', PBool False),
      (''user_settings_object'', PBool True)]"

text \<open>
  Lines 141 to 173: the registration for a user, whose client must be known, or the
  one-shot fetch and its post-processing for a spectator.
\<close>

definition register_state ::
  "env \<Rightarrow> HttpRequest \<Rightarrow> UserProfile option \<Rightarrow> Realm \<Rightarrow> string list list \<Rightarrow> error + pydict" where
  "register_state e request user_profile home_realm narrow =
     (case user_profile of
        Some u \<Rightarrow>
          (case request_notes_client e request of
             None \<Rightarrow> Inl AssertionError
           | Some client \<Rightarrow>
               do_events_register e u client True True True client_capabilities narrow False)
      | None \<Rightarrow>
          (case getitem client_capabilities ''user_avatar_url_field_optional'' of
             Inl err \<Rightarrow> Inl err
           | Inr avatar_optional \<Rightarrow>
               (case getitem client_capabilities ''user_settings_object'' of
                  Inl err \<Rightarrow> Inl err
                | Inr settings_object \<Rightarrow>
                    (case fetch_initial_state_data e user_profile home_realm PNone PNone False
                            avatar_optional settings_object False False False of
                       Inl err \<Rightarrow> Inl err
                     | Inr register_ret \<Rightarrow>
                         post_process_state e user_profile register_ret False))))"

text \<open>Lines 175 and 183 to 218: the computed fields, in the order of the dict call.\<close>

definition computed_page_params ::
  "env \<Rightarrow> settings \<Rightarrow> model_consts \<Rightarrow> billing_store \<Rightarrow> UserProfile option \<Rightarrow> Realm
     \<Rightarrow> bool \<Rightarrow> bool \<Rightarrow> bool \<Rightarrow> bool \<Rightarrow> pydict" where
  "computed_page_params e s mc store user_profile home_realm insecure_desktop_app
       first_in_realm prompt_for_invites needs_tutorial =
     (let furthest_read_time = get_furthest_read_time e user_profile;
          two_fa_enabled = (TWO_FACTOR_AUTHENTICATION_ENABLED s \<and> user_profile \<noteq> None);
          billing_info = get_billing_info s mc store user_profile;
          user_permission_info = get_user_permission_info mc user_profile
      in [(''test_suite'', PBool (TEST_SUITE s)),
          (''insecure_desktop_app'', PBool insecure_desktop_app),
          (''login_page'', PStr (HOME_NOT_LOGGED_IN s)),
          (''warn_no_email'', PBool (WARN_NO_EMAIL s)),
          (''search_pills_enabled'', PBool (SEARCH_PILLS_ENABLED s)),
          (''corporate_enabled'', PBool (CORPORATE_ENABLED s)),
          (''language_list'', get_language_list e),
          (''needs_tutorial'', PBool needs_tutorial),
          (''first_in_realm'', PBool first_in_realm),
          (''prompt_for_invites'', PBool prompt_for_invites),
          (''furthest_read_time'', furthest_read_time),
          (''bot_types'', PList (get_bot_types mc user_profile)),
          (''two_fa_enabled'', PBool two_fa_enabled),
          (''apps_page_url'', PStr (get_apps_page_url e)),
          (''show_billing'', PBool (show_billing billing_info)),
          (''promote_sponsoring_zulip'',
             PBool (promote_sponsoring_zulip_in_realm s mc home_realm)),
          (''show_plans'', PBool (show_plans billing_info)),
          (''show_webathena'', PBool (show_webathena user_permission_info)),
          (''two_fa_enabled_user'',
             PBool (if two_fa_enabled then default_device e user_profile \<noteq> None else False)),
          (''is_spectator'', PBool (user_profile = None)),
          (''no_event_queue'', PBool (user_profile = None))])"

text \<open>
  Lines 220 and 221: every key of \<^verbatim>\<open>register_ret\<close>, in its order, is assigned
  into \<^verbatim>\<open>page_params\<close>. A key of the dict always has a value.
\<close>

definition merge_register :: "pydict \<Rightarrow> pydict \<Rightarrow> pydict" where
  "merge_register page_params register_ret =
     fold (\<lambda>field_name pp.
             case map_of register_ret field_name of
               Some v \<Rightarrow> AList.update field_name v pp
             | None \<Rightarrow> pp)
          (map fst register_ret) page_params"

definition build_page_params_for_home_page_load ::
  "env \<Rightarrow> settings \<Rightarrow> model_consts \<Rightarrow> billing_store \<Rightarrow> HttpRequest \<Rightarrow> UserProfile option
     \<Rightarrow> Realm \<Rightarrow> bool \<Rightarrow> string list list \<Rightarrow> Stream option \<Rightarrow> string option
     \<Rightarrow> bool \<Rightarrow> bool \<Rightarrow> bool \<Rightarrow> error + (pyval \<times> pydict)" where
  "build_page_params_for_home_page_load e s mc store request user_profile home_realm
       insecure_desktop_app narrow narrow_stream narrow_topic
       first_in_realm prompt_for_invites needs_tutorial =
     (case register_state e request user_profile home_realm narrow of
        Inl err \<Rightarrow> Inl err
      | Inr register_ret \<Rightarrow>
          (case getitem register_ret ''user_settings'' of
             Inl err \<Rightarrow> Inl err
           | Inr user_settings \<Rightarrow>
               (case subscript user_settings ''default_language'' of
                  Inl err \<Rightarrow> Inl err
                | Inr default_language \<Rightarrow>
                    (let request_language =
                           get_and_set_request_language e request default_language
                             (get_language_from_path e (path_info request));
                         page_params =
                           computed_page_params e s mc store user_profile home_realm
                             insecure_desktop_app first_in_realm prompt_for_invites
                             needs_tutorial;
                         page_params = merge_register page_params register_ret
                     in (case (case narrow_stream of
                                 None \<Rightarrow> Inr page_params
                               | Some stream \<Rightarrow>
                                   narrow_override (messages e) page_params stream
                                     narrow_topic narrow) of
                           Inl err \<Rightarrow> Inl err
                         | Inr page_params \<Rightarrow>
                             (let page_params =
                                    AList.update ''translation_data''
                                      (get_language_translation_data e request_language)
                                      page_params
                              in (case getitem register_ret ''queue_id'' of
                                    Inl err \<Rightarrow> Inl err
                                  | Inr queue_id \<Rightarrow> Inr (queue_id, page_params))))))))"

subsection \<open>The state of a spectator\<close>

text \<open>
  Modelled from the spec: \<^verbatim>\<open>fetch_initial_state_data\<close> and
  \<^verbatim>\<open>post_process_state\<close> belong to \<^verbatim>\<open>zerver.lib.events\<close>, which is not
  among the sources, so what they return for a spectator is taken from the spec. No queue
  is registered: the state's \<^verbatim>\<open>queue_id\<close> is the None the fetch was called with.
  The state holds the \<^verbatim>\<open>user_settings\<close> sub-mapping with its
  \<^verbatim>\<open>default_language\<close>. And, every field name of the snapshot being unique, the
  state has no field named like a computed one, in particular none named
  \<^verbatim>\<open>is_spectator\<close>, \<^verbatim>\<open>no_event_queue\<close> or \<^verbatim>\<open>bot_types\<close>.
\<close>

definition spectator_state :: "pydict \<Rightarrow> bool" where
  "spectator_state ret \<longleftrightarrow>
     map_of ret ''queue_id'' = Some PNone \<and>
     (case map_of ret ''user_settings'' of
        Some (PDict us) \<Rightarrow> map_of us ''default_language'' \<noteq> None
      | _ \<Rightarrow> False) \<and>
     map_of ret ''is_spectator'' = None \<and>
     map_of ret ''no_event_queue'' = None \<and>
     map_of ret ''bot_types'' = None"

subsection \<open>Example data\<close>

text \<open>
  A small installation on which the properties below are run: a realm on the Limited
  plan with a customer that has one plan, an owner with billing access, a guest, and a
  second billing store that has no customer at all.
\<close>

definition ex_settings :: settings where
  "ex_settings =
     \<lparr>TEST_SUITE = False, HOME_NOT_LOGGED_IN = ''/login/'', WARN_NO_EMAIL = False,
      SEARCH_PILLS_ENABLED = False, CORPORATE_ENABLED = True,
      PROMOTE_SPONSORING_ZULIP = False, TWO_FACTOR_AUTHENTICATION_ENABLED = False\<rparr>"

definition ex_consts :: model_consts where
  "ex_consts =
     \<lparr>LIMITED = 2, STANDARD_FREE = 4, SELF_HOSTED = 1, COLOR_SCHEME_AUTOMATIC = 1,
      BOT_TYPES = [(1, ''Generic bot''), (2, ''Incoming webhook'')]\<rparr>"

definition ex_realm :: Realm where
  "ex_realm = \<lparr>realm_id = 7, plan_type = 2, webathena_enabled = True\<rparr>"

definition ex_owner :: UserProfile where
  "ex_owner =
     \<lparr>user_id = 10, color_scheme = 2, is_guest = False, is_realm_admin = True,
      is_realm_owner = True, has_billing_access = True, allowed_bot_types = [1, 2],
      realm = ex_realm\<rparr>"

definition ex_guest :: UserProfile where
  "ex_guest =
     \<lparr>user_id = 11, color_scheme = 1, is_guest = True, is_realm_admin = False,
      is_realm_owner = False, has_billing_access = False, allowed_bot_types = [],
      realm = ex_realm\<rparr>"

definition ex_store :: billing_store where
  "ex_store =
     \<lparr>get_customer_by_realm =
        (\<lambda>r. if realm_id r = 7 then Some \<lparr>customer_id = 3, sponsorship_pending = False\<rparr>
             else None),
      customer_plans = [\<lparr>plan_id = 1, customer = 3\<rparr>]\<rparr>"

definition ex_empty_store :: billing_store where
  "ex_empty_store = \<lparr>get_customer_by_realm = (\<lambda>r. None), customer_plans = []\<rparr>"

definition ex_visit :: datetime where
  "ex_visit =
     \<lparr>year = 2021, month = 7, day = 1, hour = 12, minute = 0, second = 0,
      microsecond = 250000\<rparr>"

definition ex_state :: pydict where
  "ex_state =
     [(''user_settings'',
         PDict [(''default_language'', PStr ''en''),
                (''enable_desktop_notifications'', PBool True)]),
      (''max_message_id'', PInt 12),
      (''realm_name'', PStr ''Zulip'')]"

definition ex_stream :: Stream where
  "ex_stream = \<lparr>name = ''Denmark'', recipient = 20\<rparr>"

definition ex_empty_stream :: Stream where
  "ex_empty_stream = \<lparr>name = ''Quiet'', recipient = 99\<rparr>"

definition ex_messages :: "Message list" where
  "ex_messages =
     [\<lparr>msg_id = 5, recipient = 20\<rparr>, \<lparr>msg_id = 9, recipient = 20\<rparr>,
      \<lparr>msg_id = 3, recipient = 20\<rparr>, \<lparr>msg_id = 12, recipient = 21\<rparr>]"

text \<open>
  Collaborators for the examples: the registration returns the example state under a
  queue id, the fetch returns it under the queue id it was called with, and the
  post-processing leaves it as it is.
\<close>

definition ex_env :: env where
  "ex_env =
     \<lparr>time_time = 1625140800.5,
      get_latest_update_message_flag_activity =
        (\<lambda>u. if user_id u = 10 then Some \<lparr>last_visit = ex_visit\<rparr> else None),
      request_notes_client = (\<lambda>r. Some ''website''),
      do_events_register =
        (\<lambda>u client apply_markdown client_gravatar slim_presence capabilities narrow
            include_streams. Inr ((''queue_id'', PStr ''1:0'') # ex_state)),
      fetch_initial_state_data =
        (\<lambda>u r event_types queue_id client_gravatar avatar_optional settings_object
            slim_presence include_subscribers include_streams.
            Inr ((''queue_id'', queue_id) # ex_state)),
      post_process_state = (\<lambda>u state queue_backed. Inr state),
      get_language_from_path = (\<lambda>path. None),
      get_and_set_request_language =
        (\<lambda>r language url_language.
            case url_language of
              Some l \<Rightarrow> l
            | None \<Rightarrow> (case language of PStr l \<Rightarrow> l | _ \<Rightarrow> ''en'')),
      get_language_list = PList [],
      get_language_translation_data = (\<lambda>language. PDict []),
      get_apps_page_url = ''/apps/'',
      default_device = (\<lambda>u. None),
      messages = ex_messages\<rparr>"

text \<open>
  The same collaborators with a registration whose result has a field named like a
  computed one.
\<close>

definition ex_colliding_env :: env where
  "ex_colliding_env =
     ex_env\<lparr>do_events_register :=
        (\<lambda>u client apply_markdown client_gravatar slim_presence capabilities narrow
            include_streams.
            Inr ((''is_spectator'', PBool True) # (''queue_id'', PStr ''1:0'') # ex_state))\<rparr>"

definition ex_request :: HttpRequest where
  "ex_request = \<lparr>path_info = ''/''\<rparr>"

definition ex_page_params :: pydict where
  "ex_page_params =
     [(''user_settings'', PDict [(''enable_desktop_notifications'', PBool True)]),
      (''max_message_id'', PInt 12)]"

section \<open>Properties\<close>

subsection \<open>The billing policy\<close>

lemma customer_plan_exists_iff:
  "customer_plan_exists store c \<longleftrightarrow>
     (\<exists>p. p \<in> set (customer_plans store) \<and> customer p = customer_id c)"
  by (auto simp: customer_plan_exists_def filter_empty_conv)

text \<open>
  C1. \<^verbatim>\<open>get_billing_info\<close> returns \<^verbatim>\<open>show_billing\<close> true exactly when the
  corporate feature is enabled, a user is present, the user has billing access, the
  user's realm has a customer, and that customer's sponsorship is pending or at least one
  plan row belongs to it; in every other case it is false.
\<close>

theorem get_billing_info_show_billing:
  "show_billing (get_billing_info s mc store user_profile) \<longleftrightarrow>
     CORPORATE_ENABLED s \<and>
     (\<exists>u c. user_profile = Some u \<and> has_billing_access u \<and>
        get_customer_by_realm store (realm u) = Some c \<and>
        (sponsorship_pending c \<or>
         (\<exists>p. p \<in> set (customer_plans store) \<and> customer p = customer_id c)))"
proof (cases user_profile)
  case None
  then show ?thesis by (simp add: get_billing_info_def split: bool.splits)
next
  case (Some u)
  then show ?thesis
    by (cases "get_customer_by_realm store (realm u)")
       (auto simp: get_billing_info_def customer_plan_exists_iff split: bool.splits)
qed

theorem get_billing_info_show_billing_witness:
  "show_billing (get_billing_info ex_settings ex_consts ex_store (Some ex_owner)) \<and>
   \<not> show_billing (get_billing_info ex_settings ex_consts ex_empty_store (Some ex_owner))"
  using get_billing_info_show_billing [of ex_settings ex_consts ex_store "Some ex_owner"]
    get_billing_info_show_billing [of ex_settings ex_consts ex_empty_store "Some ex_owner"]
  by (simp add: ex_settings_def ex_store_def ex_empty_store_def ex_owner_def ex_realm_def)

text \<open>
  C5. \<^verbatim>\<open>get_billing_info\<close> returns \<^verbatim>\<open>show_plans\<close> true exactly when the
  corporate feature is enabled, a user is present, the user is not a guest and the plan
  type of the user's realm is Limited. In particular a guest never gets
  \<^verbatim>\<open>show_plans\<close>, whatever the settings and the plan type.
\<close>

theorem get_billing_info_show_plans:
  "(show_plans (get_billing_info s mc store user_profile) \<longleftrightarrow>
      CORPORATE_ENABLED s \<and>
      (\<exists>u. user_profile = Some u \<and> \<not> UserProfile.is_guest u \<and>
         plan_type (realm u) = LIMITED mc)) \<and>
   (\<forall>u. UserProfile.is_guest u \<longrightarrow> \<not> show_plans (get_billing_info s mc store (Some u)))"
  by (cases user_profile) (auto simp: get_billing_info_def split: bool.splits)

theorem get_billing_info_show_plans_witness:
  "CORPORATE_ENABLED ex_settings \<and> UserProfile.is_guest ex_guest \<and>
   plan_type (realm ex_guest) = LIMITED ex_consts \<and>
   \<not> show_plans (get_billing_info ex_settings ex_consts ex_store (Some ex_guest)) \<and>
   show_plans (get_billing_info ex_settings ex_consts ex_store (Some ex_owner))"
  using get_billing_info_show_plans [of ex_settings ex_consts ex_store "Some ex_owner"]
    get_billing_info_show_plans [of ex_settings ex_consts ex_store "Some ex_guest"]
  by (simp add: ex_settings_def ex_consts_def ex_guest_def ex_owner_def ex_realm_def)

text \<open>
  C10. When the corporate feature is disabled, or no user is present, or the user has no
  billing access, the result of \<^verbatim>\<open>get_billing_info\<close> does not depend on the
  billing store: any two stores give the same \<^verbatim>\<open>BillingInfo\<close>, and its
  \<^verbatim>\<open>show_billing\<close> is false.
\<close>

theorem get_billing_info_ignores_store:
  assumes "\<not> CORPORATE_ENABLED s \<or> user_profile = None \<or>
           (\<exists>u. user_profile = Some u \<and> \<not> has_billing_access u)"
  shows "get_billing_info s mc store1 user_profile = get_billing_info s mc store2 user_profile \<and>
         \<not> show_billing (get_billing_info s mc store1 user_profile)"
  using assms
  by (cases user_profile) (auto simp: get_billing_info_def split: bool.splits)

theorem get_billing_info_ignores_store_witness:
  "\<not> has_billing_access ex_guest \<and>
   get_billing_info ex_settings ex_consts ex_store (Some ex_guest) =
     get_billing_info ex_settings ex_consts ex_empty_store (Some ex_guest) \<and>
   \<not> show_billing (get_billing_info ex_settings ex_consts ex_store (Some ex_guest)) \<and>
   get_billing_info ex_settings ex_consts ex_store None =
     get_billing_info ex_settings ex_consts ex_empty_store None \<and>
   get_billing_info (ex_settings\<lparr>CORPORATE_ENABLED := False\<rparr>) ex_consts ex_store (Some ex_owner) =
     get_billing_info (ex_settings\<lparr>CORPORATE_ENABLED := False\<rparr>) ex_consts ex_empty_store
       (Some ex_owner)"
proof -
  have guest: "\<not> has_billing_access ex_guest"
    by (simp add: ex_guest_def)
  have a: "get_billing_info ex_settings ex_consts ex_store (Some ex_guest) =
             get_billing_info ex_settings ex_consts ex_empty_store (Some ex_guest) \<and>
           \<not> show_billing (get_billing_info ex_settings ex_consts ex_store (Some ex_guest))"
    by (rule get_billing_info_ignores_store) (simp add: guest)
  have b: "get_billing_info ex_settings ex_consts ex_store None =
             get_billing_info ex_settings ex_consts ex_empty_store None \<and>
           \<not> show_billing (get_billing_info ex_settings ex_consts ex_store None)"
    by (rule get_billing_info_ignores_store) simp
  have c: "get_billing_info (ex_settings\<lparr>CORPORATE_ENABLED := False\<rparr>) ex_consts ex_store
               (Some ex_owner) =
             get_billing_info (ex_settings\<lparr>CORPORATE_ENABLED := False\<rparr>) ex_consts
               ex_empty_store (Some ex_owner) \<and>
           \<not> show_billing (get_billing_info (ex_settings\<lparr>CORPORATE_ENABLED := False\<rparr>)
                 ex_consts ex_store (Some ex_owner))"
    by (rule get_billing_info_ignores_store) simp
  from guest a b c show ?thesis by blast
qed

subsection \<open>The permission projection\<close>

text \<open>
  C7. Without a user \<^verbatim>\<open>get_user_permission_info\<close> returns the fixed defaults: the
  automatic colour scheme and every flag false. With a user it copies the colour scheme
  and the guest, admin and owner flags from the user and takes
  \<^verbatim>\<open>show_webathena\<close> from the \<^verbatim>\<open>webathena_enabled\<close> flag of the user's realm.
\<close>

theorem get_user_permission_info_projection:
  "get_user_permission_info mc None =
     \<lparr>color_scheme = COLOR_SCHEME_AUTOMATIC mc, is_guest = False, is_realm_admin = False,
      is_realm_owner = False, show_webathena = False\<rparr> \<and>
   get_user_permission_info mc (Some u) =
     \<lparr>color_scheme = UserProfile.color_scheme u, is_guest = UserProfile.is_guest u,
      is_realm_admin = UserProfile.is_realm_admin u,
      is_realm_owner = UserProfile.is_realm_owner u,
      show_webathena = webathena_enabled (realm u)\<rparr>"
  by (simp add: get_user_permission_info_def)

theorem get_user_permission_info_projection_witness:
  "get_user_permission_info ex_consts None =
     \<lparr>color_scheme = 1, is_guest = False, is_realm_admin = False,
      is_realm_owner = False, show_webathena = False\<rparr> \<and>
   get_user_permission_info ex_consts (Some ex_owner) =
     \<lparr>color_scheme = 2, is_guest = False, is_realm_admin = True,
      is_realm_owner = True, show_webathena = True\<rparr>"
  using get_user_permission_info_projection [of ex_consts ex_owner]
  by (simp add: ex_consts_def ex_owner_def ex_realm_def)

subsection \<open>The furthest read time\<close>

text \<open>
  C4. Without a user \<^verbatim>\<open>get_furthest_read_time\<close> returns the reading of the clock,
  which is not None. With a user whose latest update-message-flags activity does not
  exist it returns None. Otherwise it returns the activity's last visit as whole seconds
  since 1970-01-01 00:00:00 UTC: the days between the two dates times 86400, plus the
  hours, minutes and seconds of the visit.
\<close>

theorem get_furthest_read_time_cases:
  "get_furthest_read_time e None = PFloat (time_time e) \<and>
   get_furthest_read_time e None \<noteq> PNone \<and>
   (get_latest_update_message_flag_activity e u = None \<longrightarrow>
      get_furthest_read_time e (Some u) = PNone) \<and>
   (\<forall>a. get_latest_update_message_flag_activity e u = Some a \<longrightarrow>
      get_furthest_read_time e (Some u) = PInt (timegm (utctimetuple (last_visit a))) \<and>
      timegm (utctimetuple (last_visit a)) =
        (toordinal (year (last_visit a)) (month (last_visit a)) (day (last_visit a))
           - toordinal 1970 1 1) * 86400
        + hour (last_visit a) * 3600 + minute (last_visit a) * 60
        + second (last_visit a))"
  by (auto simp: get_furthest_read_time_def timegm_def utctimetuple_def EPOCH_ORD_def
        toordinal_def Let_def algebra_simps)

theorem get_furthest_read_time_cases_witness:
  "get_furthest_read_time ex_env None = PFloat 1625140800.5 \<and>
   get_latest_update_message_flag_activity ex_env ex_guest = None \<and>
   get_furthest_read_time ex_env (Some ex_guest) = PNone \<and>
   get_latest_update_message_flag_activity ex_env ex_owner = Some \<lparr>last_visit = ex_visit\<rparr> \<and>
   get_furthest_read_time ex_env (Some ex_owner) = PInt 1625140800"
proof -
  have guest: "get_latest_update_message_flag_activity ex_env ex_guest = None"
    by (simp add: ex_env_def ex_guest_def)
  have owner: "get_latest_update_message_flag_activity ex_env ex_owner =
                 Some \<lparr>last_visit = ex_visit\<rparr>"
    by (simp add: ex_env_def ex_owner_def)
  have ord: "toordinal 2021 7 1 - toordinal 1970 1 1 = 18809"
    by (simp add: toordinal_def days_before_year_def days_before_month_def is_leap_def)
  have "get_furthest_read_time ex_env None = PFloat 1625140800.5"
    using get_furthest_read_time_cases [of ex_env ex_guest] by (simp add: ex_env_def)
  moreover have "get_furthest_read_time ex_env (Some ex_guest) = PNone"
    using get_furthest_read_time_cases [of ex_env ex_guest] guest by simp
  moreover have "get_furthest_read_time ex_env (Some ex_owner) = PInt 1625140800"
    using get_furthest_read_time_cases [of ex_env ex_owner] owner ord
    by (simp add: ex_visit_def)
  ultimately show ?thesis using guest owner by simp
qed

subsection \<open>Dictionaries: the merge of the registration result\<close>

text \<open>
  After the loop of lines 220 and 221 a key of \<^verbatim>\<open>register_ret\<close> has the value
  \<^verbatim>\<open>register_ret\<close> gives it, and every other key has the value it had before.
\<close>

lemma map_of_fold_register:
  "set ks \<subseteq> fst ` set register_ret \<Longrightarrow>
   map_of (fold (\<lambda>field_name pp.
             case map_of register_ret field_name of
               Some v \<Rightarrow> AList.update field_name v pp
             | None \<Rightarrow> pp) ks pp) k =
   (if k \<in> set ks then map_of register_ret k else map_of pp k)"
proof (induction ks arbitrary: pp)
  case Nil
  then show ?case by simp
next
  case (Cons a ks)
  from Cons.prems have "a \<in> fst ` set register_ret" by simp
  then obtain v where v: "map_of register_ret a = Some v"
    by (metis domD dom_map_of_conv_image_fst)
  from Cons.prems have sub: "set ks \<subseteq> fst ` set register_ret" by simp
  show ?case
    using Cons.IH [OF sub, of "AList.update a v pp"] v
    by (simp add: update_conv')
qed

lemma map_of_merge_register:
  "map_of (merge_register page_params register_ret) k =
     (case map_of register_ret k of Some v \<Rightarrow> Some v | None \<Rightarrow> map_of page_params k)"
proof -
  have "k \<in> fst ` set register_ret \<longleftrightarrow> map_of register_ret k \<noteq> None"
    by (simp add: map_of_eq_None_iff)
  then show ?thesis
    unfolding merge_register_def
    by (auto simp: map_of_fold_register split: option.splits)
qed

subsection \<open>The narrow override: the latest message and the writes\<close>

lemma collect_narrow_terms:
  "(\<forall>t \<in> set narrow. 2 \<le> length t) \<longleftrightarrow> (\<exists>terms. collect (map narrow_term narrow) = Inr terms)"
proof (induction narrow)
  case Nil
  then show ?case by simp
next
  case (Cons t ts)
  show ?case
  proof (cases t)
    case Nil
    then show ?thesis by (simp add: narrow_term_def)
  next
    case (Cons a as)
    then show ?thesis using Cons.IH
      by (cases as) (auto simp: narrow_term_def split: sum.splits)
  qed
qed

lemma latest_message_id_empty:
  "filter (\<lambda>m. Message.recipient m = r) msgs = [] \<Longrightarrow> latest_message_id msgs r = Inl IndexError"
  by (simp add: latest_message_id_def)

lemma sorted_last_Max:
  fixes ys :: "'a::linorder list"
  shows "sorted ys \<Longrightarrow> ys \<noteq> [] \<Longrightarrow> last ys = Max (set ys)"
proof (induction ys)
  case Nil
  then show ?case by simp
next
  case (Cons y ys)
  show ?case
  proof (cases "ys = []")
    case True
    then show ?thesis by simp
  next
    case False
    with Cons have IH: "last ys = Max (set ys)" by simp
    from Cons.prems have "\<forall>z \<in> set ys. y \<le> z" by simp
    moreover from False obtain z where "z \<in> set ys" by (cases ys) auto
    ultimately have "y \<le> Max (set ys)" by (meson List.finite_set Max_ge order_trans)
    then have "Max (insert y (set ys)) = Max (set ys)"
      using False by (simp add: max_def)
    with IH False show ?thesis by simp
  qed
qed

lemma last_sort_key_Max:
  assumes "xs \<noteq> []"
  shows "f (last (sort_key f xs)) = Max (f ` set xs)"
proof -
  let ?ys = "sort_key f xs"
  have ne: "?ys \<noteq> []" using assms by (metis length_sort length_0_conv)
  have "f (last ?ys) = last (map f ?ys)" using ne by (simp add: last_map)
  also have "\<dots> = Max (set (map f ?ys))"
    using ne by (intro sorted_last_Max) simp_all
  finally show ?thesis by simp
qed

lemma latest_message_id_Max:
  assumes "filter (\<lambda>m. Message.recipient m = r) msgs \<noteq> []"
  shows "latest_message_id msgs r =
           Inr (Max (msg_id ` {m \<in> set msgs. Message.recipient m = r}))"
proof -
  let ?rows = "filter (\<lambda>m. Message.recipient m = r) msgs"
  let ?ys = "sort_key msg_id ?rows"
  have ne: "?ys \<noteq> []" using assms by (metis length_sort length_0_conv)
  then obtain m rest where mr: "rev ?ys = m # rest" by (cases "rev ?ys") auto
  have "m = hd (rev ?ys)" using mr by simp
  also have "\<dots> = last ?ys" using ne by (simp add: hd_rev)
  finally have m: "m = last ?ys" .
  have res: "latest_message_id msgs r = Inr (msg_id m)"
    unfolding latest_message_id_def mr by simp
  have "msg_id (last ?ys) = Max (msg_id ` set ?rows)"
    using assms by (rule last_sort_key_Max)
  moreover have "set ?rows = {m \<in> set msgs. Message.recipient m = r}" by auto
  ultimately show ?thesis unfolding res m by simp
qed

lemma narrow_max_message_id_eq:
  "narrow_max_message_id msgs stream =
     Inr (if filter (\<lambda>m. Message.recipient m = Stream.recipient stream) msgs = [] then - 1
          else Max (msg_id ` {m \<in> set msgs. Message.recipient m = Stream.recipient stream}))"
  by (simp add: narrow_max_message_id_def latest_message_id_empty latest_message_id_Max)


lemma narrow_override_Inr:
  assumes "narrow_override msgs pp stream topic narrow = Inr pp'"
  shows "\<exists>mid terms d.
           narrow_max_message_id msgs stream = Inr mid \<and>
           collect (map narrow_term narrow) = Inr terms \<and>
           map_of pp ''user_settings'' = Some (PDict d) \<and>
           pp' = AList.update ''user_settings''
                   (PDict (AList.update ''enable_desktop_notifications'' (PBool False) d))
                   (AList.update ''max_message_id'' (PInt mid)
                      (AList.update ''narrow'' (PList terms)
                         ((case topic of
                             Some t \<Rightarrow> AList.update ''narrow_topic'' (PStr t)
                           | None \<Rightarrow> (\<lambda>p. p))
                            (AList.update ''narrow_stream'' (PStr (name stream)) pp))))"
  using assms
  by (cases topic)
     (auto simp: narrow_override_def getitem_def update_conv' Let_def
           split: sum.splits pyval.splits option.splits)

lemma narrow_override_returns:
  assumes "map_of pp ''user_settings'' = Some (PDict d)"
    and "\<forall>t \<in> set narrow. 2 \<le> length t"
  shows "\<exists>pp'. narrow_override msgs pp stream topic narrow = Inr pp'"
proof -
  from assms(2) obtain terms where "collect (map narrow_term narrow) = Inr terms"
    using collect_narrow_terms by blast
  then show ?thesis using assms(1)
    by (cases topic)
       (simp_all add: narrow_override_def narrow_max_message_id_eq getitem_def update_conv' Let_def)
qed


lemma narrow_override_max:
  assumes "narrow_override msgs pp stream topic narrow = Inr pp'"
  shows "\<exists>mid. narrow_max_message_id msgs stream = Inr mid \<and>
           map_of pp' ''max_message_id'' = Some (PInt mid)"
proof -
  from narrow_override_Inr [OF assms] obtain mid terms d where
    "narrow_max_message_id msgs stream = Inr mid"
    "pp' = AList.update ''user_settings''
                   (PDict (AList.update ''enable_desktop_notifications'' (PBool False) d))
                   (AList.update ''max_message_id'' (PInt mid)
                      (AList.update ''narrow'' (PList terms)
                         ((case topic of
                             Some t \<Rightarrow> AList.update ''narrow_topic'' (PStr t)
                           | None \<Rightarrow> (\<lambda>p. p))
                            (AList.update ''narrow_stream'' (PStr (name stream)) pp))))"
    by blast
  then show ?thesis by (simp add: update_conv')
qed

lemma narrow_override_user_settings:
  assumes "narrow_override msgs pp stream topic narrow = Inr pp'"
  shows "\<exists>d. map_of pp ''user_settings'' = Some (PDict d) \<and>
           map_of pp' ''user_settings'' =
             Some (PDict (AList.update ''enable_desktop_notifications'' (PBool False) d))"
proof -
  from narrow_override_Inr [OF assms] obtain mid terms d where
    "map_of pp ''user_settings'' = Some (PDict d)"
    "pp' = AList.update ''user_settings''
                   (PDict (AList.update ''enable_desktop_notifications'' (PBool False) d))
                   (AList.update ''max_message_id'' (PInt mid)
                      (AList.update ''narrow'' (PList terms)
                         ((case topic of
                             Some t \<Rightarrow> AList.update ''narrow_topic'' (PStr t)
                           | None \<Rightarrow> (\<lambda>p. p))
                            (AList.update ''narrow_stream'' (PStr (name stream)) pp))))"
    by blast
  then show ?thesis by (simp add: update_conv')
qed

lemma narrow_override_frame:
  assumes "narrow_override msgs pp stream topic narrow = Inr pp'"
    and "k \<noteq> ''user_settings''" "k \<noteq> ''max_message_id''" "k \<noteq> ''narrow''"
    and "k \<noteq> ''narrow_stream''" "k = ''narrow_topic'' \<longrightarrow> topic = None"
  shows "map_of pp' k = map_of pp k"
proof -
  from narrow_override_Inr [OF assms(1)] obtain mid terms d where
    "pp' = AList.update ''user_settings''
                   (PDict (AList.update ''enable_desktop_notifications'' (PBool False) d))
                   (AList.update ''max_message_id'' (PInt mid)
                      (AList.update ''narrow'' (PList terms)
                         ((case topic of
                             Some t \<Rightarrow> AList.update ''narrow_topic'' (PStr t)
                           | None \<Rightarrow> (\<lambda>p. p))
                            (AList.update ''narrow_stream'' (PStr (name stream)) pp))))"
    by blast
  then show ?thesis using assms(2-)
    by (cases topic) (auto simp: update_conv')
qed

lemma narrow_override_idem:
  assumes "narrow_override msgs pp stream topic narrow = Inr pp'"
  shows "narrow_override msgs pp' stream topic narrow = Inr pp'"
proof -
  from narrow_override_Inr [OF assms] obtain mid terms d where
    mid: "narrow_max_message_id msgs stream = Inr mid" and
    terms: "collect (map narrow_term narrow) = Inr terms" and
    pp': "pp' = AList.update ''user_settings''
                   (PDict (AList.update ''enable_desktop_notifications'' (PBool False) d))
                   (AList.update ''max_message_id'' (PInt mid)
                      (AList.update ''narrow'' (PList terms)
                         ((case topic of
                             Some t \<Rightarrow> AList.update ''narrow_topic'' (PStr t)
                           | None \<Rightarrow> (\<lambda>p. p))
                            (AList.update ''narrow_stream'' (PStr (name stream)) pp))))"
    by blast
  have a: "AList.update ''narrow_stream'' (PStr (name stream)) pp' = pp'"
    by (rule update_triv) (cases topic; simp add: pp' update_conv')
  have b: "topic = Some t \<Longrightarrow> AList.update ''narrow_topic'' (PStr t) pp' = pp'" for t
    by (rule update_triv) (simp add: pp' update_conv')
  have c: "AList.update ''narrow'' (PList terms) pp' = pp'"
    by (rule update_triv) (simp add: pp' update_conv')
  have d: "AList.update ''max_message_id'' (PInt mid) pp' = pp'"
    by (rule update_triv) (simp add: pp' update_conv')
  have us: "map_of pp' ''user_settings'' =
      Some (PDict (AList.update ''enable_desktop_notifications'' (PBool False) d))"
    by (simp add: pp' update_conv')
  have e: "AList.update ''enable_desktop_notifications'' (PBool False)
             (AList.update ''enable_desktop_notifications'' (PBool False) d) =
           AList.update ''enable_desktop_notifications'' (PBool False) d"
    by (rule update_triv) (simp add: update_conv')
  have f: "AList.update ''user_settings''
             (PDict (AList.update ''enable_desktop_notifications'' (PBool False) d)) pp' = pp'"
    using us by (rule update_triv)
  show ?thesis
    by (cases topic) (simp_all add: narrow_override_def mid terms a b c d e f us getitem_def)
qed

text \<open>
  C6. The lookup of the latest message of the narrow stream never fails: it gives
  \<^verbatim>\<open>-1\<close> when the stream's recipient has no message and the largest message id of
  the recipient otherwise. Whenever the override returns, \<^verbatim>\<open>max_message_id\<close> is
  that number; and it does return, whatever the messages are, once the page parameters
  hold a \<^verbatim>\<open>user_settings\<close> dict and every narrow term has an operator and an
  operand.
\<close>

theorem narrow_max_message_id_resolution:
  "(filter (\<lambda>m. Message.recipient m = Stream.recipient stream) msgs = [] \<longrightarrow>
      narrow_max_message_id msgs stream = Inr (- 1)) \<and>
   (filter (\<lambda>m. Message.recipient m = Stream.recipient stream) msgs \<noteq> [] \<longrightarrow>
      narrow_max_message_id msgs stream =
        Inr (Max (msg_id ` {m \<in> set msgs. Message.recipient m = Stream.recipient stream}))) \<and>
   (\<forall>pp'. narrow_override msgs pp stream topic narrow = Inr pp' \<longrightarrow>
      (\<exists>mid. narrow_max_message_id msgs stream = Inr mid \<and>
             map_of pp' ''max_message_id'' = Some (PInt mid))) \<and>
   ((\<exists>d. map_of pp ''user_settings'' = Some (PDict d)) \<and> (\<forall>t \<in> set narrow. 2 \<le> length t) \<longrightarrow>
      (\<exists>pp'. narrow_override msgs pp stream topic narrow = Inr pp'))"
  using narrow_override_max [of msgs pp stream topic narrow]
    narrow_override_returns [of pp _ narrow msgs stream topic]
  by (auto simp: narrow_max_message_id_eq)

theorem narrow_max_message_id_resolution_witness:
  "filter (\<lambda>m. Message.recipient m = Stream.recipient ex_empty_stream) ex_messages = [] \<and>
   narrow_max_message_id ex_messages ex_empty_stream = Inr (- 1) \<and>
   filter (\<lambda>m. Message.recipient m = Stream.recipient ex_stream) ex_messages \<noteq> [] \<and>
   narrow_max_message_id ex_messages ex_stream = Inr 9 \<and>
   Max (msg_id ` {m \<in> set ex_messages. Message.recipient m = Stream.recipient ex_stream}) = 9 \<and>
   (\<exists>pp'. narrow_override ex_messages ex_page_params ex_empty_stream None
            [[''stream'', ''Quiet'']] = Inr pp' \<and>
          map_of pp' ''max_message_id'' = Some (PInt (- 1)))"
proof -
  note thm1 = narrow_max_message_id_resolution
    [of ex_empty_stream ex_messages ex_page_params None "[[''stream'', ''Quiet'']]"]
  note thm2 = narrow_max_message_id_resolution
    [of ex_stream ex_messages ex_page_params None "[[''stream'', ''Denmark'']]"]
  have empty: "filter (\<lambda>m. Message.recipient m = Stream.recipient ex_empty_stream)
                 ex_messages = []"
    by (simp add: ex_messages_def ex_empty_stream_def)
  have some: "filter (\<lambda>m. Message.recipient m = Stream.recipient ex_stream) ex_messages \<noteq> []"
    by (simp add: ex_messages_def ex_stream_def)
  have nine: "narrow_max_message_id ex_messages ex_stream = Inr 9"
    by (simp add: narrow_max_message_id_def latest_message_id_def ex_messages_def
          ex_stream_def)
  have wf: "(\<exists>d. map_of ex_page_params ''user_settings'' = Some (PDict d)) \<and>
            (\<forall>t \<in> set [[''stream'', ''Quiet'']]. 2 \<le> length t)"
    by (simp add: ex_page_params_def)
  from thm1 empty have minus: "narrow_max_message_id ex_messages ex_empty_stream = Inr (- 1)"
    by blast
  from thm1 wf obtain pp' where
    pp': "narrow_override ex_messages ex_page_params ex_empty_stream None
            [[''stream'', ''Quiet'']] = Inr pp'"
    by blast
  with thm1 minus have "map_of pp' ''max_message_id'' = Some (PInt (- 1))"
    by auto
  moreover from thm2 some nine have
    "Max (msg_id ` {m \<in> set ex_messages. Message.recipient m = Stream.recipient ex_stream}) = 9"
    by simp
  ultimately show ?thesis using empty some nine minus pp' by blast
qed

text \<open>
  C8. The override is idempotent on \<^verbatim>\<open>max_message_id\<close>: when it returns for a
  stream, a topic, the narrow terms and the message table, it returns again on its own
  result with the same arguments, and \<^verbatim>\<open>max_message_id\<close> is the same number after
  the second application as after the first.
\<close>

theorem narrow_override_idempotent_max_message_id:
  assumes "narrow_override msgs pp stream topic narrow = Inr pp1"
  shows "\<exists>pp2 mid. narrow_override msgs pp1 stream topic narrow = Inr pp2 \<and>
           map_of pp1 ''max_message_id'' = Some (PInt mid) \<and>
           map_of pp2 ''max_message_id'' = Some (PInt mid)"
  using narrow_override_idem [OF assms] narrow_override_max [OF assms] by auto

theorem narrow_override_idempotent_max_message_id_witness:
  "narrow_override ex_messages ex_page_params ex_stream (Some ''lunch'')
     [[''stream'', ''Denmark''], [''topic'', ''lunch'']] =
   Inr [(''user_settings'', PDict [(''enable_desktop_notifications'', PBool False)]),
        (''max_message_id'', PInt 9),
        (''narrow_stream'', PStr ''Denmark''),
        (''narrow_topic'', PStr ''lunch''),
        (''narrow'',
           PList [PDict [(''operator'', PStr ''stream''), (''operand'', PStr ''Denmark'')],
                  PDict [(''operator'', PStr ''topic''), (''operand'', PStr ''lunch'')]])] \<and>
   (\<exists>pp2. narrow_override ex_messages
            [(''user_settings'', PDict [(''enable_desktop_notifications'', PBool False)]),
             (''max_message_id'', PInt 9),
             (''narrow_stream'', PStr ''Denmark''),
             (''narrow_topic'', PStr ''lunch''),
             (''narrow'',
                PList [PDict [(''operator'', PStr ''stream''), (''operand'', PStr ''Denmark'')],
                       PDict [(''operator'', PStr ''topic''), (''operand'', PStr ''lunch'')]])]
            ex_stream (Some ''lunch'') [[''stream'', ''Denmark''], [''topic'', ''lunch'']] =
          Inr pp2 \<and>
          map_of pp2 ''max_message_id'' = Some (PInt 9))"
proof -
  have first: "narrow_override ex_messages ex_page_params ex_stream (Some ''lunch'')
     [[''stream'', ''Denmark''], [''topic'', ''lunch'']] =
   Inr [(''user_settings'', PDict [(''enable_desktop_notifications'', PBool False)]),
        (''max_message_id'', PInt 9),
        (''narrow_stream'', PStr ''Denmark''),
        (''narrow_topic'', PStr ''lunch''),
        (''narrow'',
           PList [PDict [(''operator'', PStr ''stream''), (''operand'', PStr ''Denmark'')],
                  PDict [(''operator'', PStr ''topic''), (''operand'', PStr ''lunch'')]])]"
    by (simp add: narrow_override_def narrow_max_message_id_def latest_message_id_def
          narrow_term_def getitem_def ex_messages_def ex_stream_def ex_page_params_def)
  from narrow_override_idempotent_max_message_id [OF first] first show ?thesis
    by simp
qed

subsection \<open>The assembler: what a returned build holds\<close>

lemma build_InrE:
  assumes "build_page_params_for_home_page_load e s mc store request user_profile home_realm
             insecure_desktop_app narrow narrow_stream narrow_topic
             first_in_realm prompt_for_invites needs_tutorial = Inr (queue_id, pp)"
  obtains ret us lang pp1 where
    "register_state e request user_profile home_realm narrow = Inr ret"
    "map_of ret ''user_settings'' = Some us"
    "subscript us ''default_language'' = Inr lang"
    "map_of ret ''queue_id'' = Some queue_id"
    "(case narrow_stream of
        None \<Rightarrow>
          Inr (merge_register
                 (computed_page_params e s mc store user_profile home_realm
                    insecure_desktop_app first_in_realm prompt_for_invites needs_tutorial)
                 ret)
      | Some stream \<Rightarrow>
          narrow_override (messages e)
            (merge_register
               (computed_page_params e s mc store user_profile home_realm
                  insecure_desktop_app first_in_realm prompt_for_invites needs_tutorial)
               ret)
            stream narrow_topic narrow) = Inr pp1"
    "pp = AList.update ''translation_data''
            (get_language_translation_data e
               (get_and_set_request_language e request lang
                  (get_language_from_path e (path_info request))))
            pp1"
  using assms
  unfolding build_page_params_for_home_page_load_def getitem_def Let_def
  by (auto split: sum.splits option.splits)

lemma build_returns:
  assumes "register_state e request user_profile home_realm narrow = Inr ret"
    and "map_of ret ''user_settings'' = Some us"
    and "subscript us ''default_language'' = Inr lang"
    and "map_of ret ''queue_id'' = Some queue_id"
    and "(case narrow_stream of
              None \<Rightarrow>
                Inr (merge_register
                       (computed_page_params e s mc store user_profile home_realm
                          insecure_desktop_app first_in_realm prompt_for_invites needs_tutorial)
                       ret)
            | Some stream \<Rightarrow>
                narrow_override (messages e)
                  (merge_register
                     (computed_page_params e s mc store user_profile home_realm
                        insecure_desktop_app first_in_realm prompt_for_invites needs_tutorial)
                     ret)
                  stream narrow_topic narrow) = Inr pp1"
  shows "build_page_params_for_home_page_load e s mc store request user_profile home_realm
             insecure_desktop_app narrow narrow_stream narrow_topic
             first_in_realm prompt_for_invites needs_tutorial =
         Inr (queue_id,
              AList.update ''translation_data''
                  (get_language_translation_data e
                     (get_and_set_request_language e request lang
                        (get_language_from_path e (path_info request))))
                  pp1)"
  using assms
  unfolding build_page_params_for_home_page_load_def getitem_def Let_def
  by (simp split: option.splits)

text \<open>A build for the owner, narrowed to a stream with the messages 5, 9 and 3.\<close>

lemma ex_build_narrow:
  "build_page_params_for_home_page_load ex_env ex_settings ex_consts ex_store ex_request
     (Some ex_owner) ex_realm False [[''stream'', ''Denmark'']] (Some ex_stream) None
     False False True =
   Inr (PStr ''1:0'',
      [(''test_suite'', PBool False),
       (''insecure_desktop_app'', PBool False),
       (''login_page'', PStr ''/login/''), (''warn_no_email'', PBool False),
       (''search_pills_enabled'', PBool False),
       (''corporate_enabled'', PBool True), (''language_list'', PList []),
       (''needs_tutorial'', PBool True), (''first_in_realm'', PBool False),
       (''prompt_for_invites'', PBool False),
       (''furthest_read_time'', PInt 1625140800),
       (''bot_types'',
        PList
         [PDict
           [(''type_id'', PInt 1), (''name'', PStr ''Generic bot''),
            (''allowed'', PBool True)],
          PDict
           [(''type_id'', PInt 2), (''name'', PStr ''Incoming webhook''),
            (''allowed'', PBool True)]]),
       (''two_fa_enabled'', PBool False),
       (''apps_page_url'', PStr ''/apps/''), (''show_billing'', PBool True),
       (''promote_sponsoring_zulip'', PBool False),
       (''show_plans'', PBool True), (''show_webathena'', PBool True),
       (''two_fa_enabled_user'', PBool False),
       (''is_spectator'', PBool False), (''no_event_queue'', PBool False),
       (''queue_id'', PStr ''1:0''),
       (''user_settings'',
        PDict
         [(''default_language'', PStr ''en''),
          (''enable_desktop_notifications'', PBool False)]),
       (''max_message_id'', PInt 9), (''realm_name'', PStr ''Zulip''),
       (''narrow_stream'', PStr ''Denmark''),
       (''narrow'',
        PList
         [PDict
           [(''operator'', PStr ''stream''),
            (''operand'', PStr ''Denmark'')]]),
       (''translation_data'', PDict [])])"
  by (simp add: build_page_params_for_home_page_load_def register_state_def ex_state_def
        getitem_def subscript_def computed_page_params_def merge_register_def
        narrow_override_def narrow_max_message_id_def latest_message_id_def narrow_term_def
        get_furthest_read_time_def get_billing_info_def get_user_permission_info_def
        get_bot_types_def promote_sponsoring_zulip_in_realm_def customer_plan_exists_def
        timegm_def utctimetuple_def EPOCH_ORD_def toordinal_def days_before_year_def
        days_before_month_def is_leap_def
        ex_env_def ex_settings_def ex_consts_def ex_store_def ex_owner_def ex_realm_def
        ex_stream_def ex_messages_def ex_visit_def ex_request_def Let_def)

text \<open>
  C2. Whenever a build with a narrow stream returns, the returned page parameters hold
  under \<^verbatim>\<open>user_settings\<close> the dict of the registration or fetch result with
  \<^verbatim>\<open>enable_desktop_notifications\<close> set to false, whatever the registration had
  there: the override writes after the merge, and the one later write
  (\<^verbatim>\<open>translation_data\<close>) is to another key.
\<close>

theorem narrow_forces_desktop_notifications_off:
  assumes "build_page_params_for_home_page_load e s mc store request user_profile home_realm
             insecure_desktop_app narrow (Some stream) narrow_topic
             first_in_realm prompt_for_invites needs_tutorial = Inr (queue_id, pp)"
  shows "\<exists>ret d.
           register_state e request user_profile home_realm narrow = Inr ret \<and>
           map_of ret ''user_settings'' = Some (PDict d) \<and>
           map_of pp ''user_settings'' =
             Some (PDict (AList.update ''enable_desktop_notifications'' (PBool False) d)) \<and>
           (\<exists>us. map_of pp ''user_settings'' = Some (PDict us) \<and>
                 map_of us ''enable_desktop_notifications'' = Some (PBool False))"
proof -
  let ?computed = "computed_page_params e s mc store user_profile home_realm
                     insecure_desktop_app first_in_realm prompt_for_invites needs_tutorial"
  from assms obtain ret us lang pp1 where
    ret: "register_state e request user_profile home_realm narrow = Inr ret" and
    us: "map_of ret ''user_settings'' = Some us" and
    "subscript us ''default_language'' = Inr lang" and
    "map_of ret ''queue_id'' = Some queue_id" and
    over': "(case Some stream of
               None \<Rightarrow> Inr (merge_register ?computed ret)
             | Some stream \<Rightarrow>
                 narrow_override (messages e) (merge_register ?computed ret) stream
                   narrow_topic narrow) = Inr pp1" and
    pp: "pp = AList.update ''translation_data''
                (get_language_translation_data e
                   (get_and_set_request_language e request lang
                      (get_language_from_path e (path_info request))))
                pp1"
    by (rule build_InrE)
  from over' have
    over: "narrow_override (messages e) (merge_register ?computed ret) stream narrow_topic
             narrow = Inr pp1"
    by simp
  from narrow_override_user_settings [OF over] obtain d where
    d: "map_of (merge_register ?computed ret) ''user_settings'' = Some (PDict d)" and
    pp1: "map_of pp1 ''user_settings'' =
            Some (PDict (AList.update ''enable_desktop_notifications'' (PBool False) d))"
    by blast
  from d us have "map_of ret ''user_settings'' = Some (PDict d)"
    by (simp add: map_of_merge_register)
  moreover from pp pp1 have "map_of pp ''user_settings'' =
      Some (PDict (AList.update ''enable_desktop_notifications'' (PBool False) d))"
    by (simp add: update_conv')
  ultimately show ?thesis using ret by (simp add: update_conv')
qed

theorem narrow_forces_desktop_notifications_off_witness:
  "map_of ex_state ''user_settings'' =
     Some (PDict [(''default_language'', PStr ''en''),
                  (''enable_desktop_notifications'', PBool True)]) \<and>
   (\<exists>queue_id pp.
      build_page_params_for_home_page_load ex_env ex_settings ex_consts ex_store ex_request
        (Some ex_owner) ex_realm False [[''stream'', ''Denmark'']] (Some ex_stream) None
        False False True = Inr (queue_id, pp) \<and>
      (\<exists>us. map_of pp ''user_settings'' = Some (PDict us) \<and>
            map_of us ''enable_desktop_notifications'' = Some (PBool False)))"
  using narrow_forces_desktop_notifications_off [OF ex_build_narrow]
  by (simp add: ex_build_narrow ex_state_def)

text \<open>The computed fields of a spectator, and the names no computed field has.\<close>

lemma computed_page_params_spectator:
  "map_of (computed_page_params e s mc store None home_realm insecure_desktop_app
             first_in_realm prompt_for_invites needs_tutorial) ''is_spectator'' =
     Some (PBool True)"
  "map_of (computed_page_params e s mc store None home_realm insecure_desktop_app
             first_in_realm prompt_for_invites needs_tutorial) ''no_event_queue'' =
     Some (PBool True)"
  "map_of (computed_page_params e s mc store None home_realm insecure_desktop_app
             first_in_realm prompt_for_invites needs_tutorial) ''bot_types'' =
     Some (PList [])"
  by (simp_all add: computed_page_params_def get_bot_types_def Let_def)

lemma computed_page_params_none:
  "map_of (computed_page_params e s mc store user_profile home_realm
             insecure_desktop_app first_in_realm prompt_for_invites needs_tutorial)
     ''translation_data'' = None"
  "map_of (computed_page_params e s mc store user_profile home_realm
             insecure_desktop_app first_in_realm prompt_for_invites needs_tutorial)
     ''narrow_stream'' = None"
  "map_of (computed_page_params e s mc store user_profile home_realm
             insecure_desktop_app first_in_realm prompt_for_invites needs_tutorial)
     ''narrow_topic'' = None"
  "map_of (computed_page_params e s mc store user_profile home_realm
             insecure_desktop_app first_in_realm prompt_for_invites needs_tutorial)
     ''narrow'' = None"
  "map_of (computed_page_params e s mc store user_profile home_realm
             insecure_desktop_app first_in_realm prompt_for_invites needs_tutorial)
     ''max_message_id'' = None"
  "map_of (computed_page_params e s mc store user_profile home_realm
             insecure_desktop_app first_in_realm prompt_for_invites needs_tutorial)
     ''user_settings'' = None"
  by (simp_all add: computed_page_params_def Let_def)

lemma computed_page_params_keys:
  assumes "map_of (computed_page_params e s mc store user_profile home_realm
                     insecure_desktop_app first_in_realm prompt_for_invites needs_tutorial) k
             \<noteq> None"
  shows "k \<noteq> ''translation_data'' \<and> k \<noteq> ''narrow_stream'' \<and> k \<noteq> ''narrow_topic'' \<and>
         k \<noteq> ''narrow'' \<and> k \<noteq> ''max_message_id'' \<and> k \<noteq> ''user_settings''"
  using assms computed_page_params_none [of e s mc store user_profile home_realm
          insecure_desktop_app first_in_realm prompt_for_invites needs_tutorial]
  by blast

text \<open>
  C3. For a spectator (no user) and no narrow stream: when the one-shot fetch, called
  with no queue id, and its post-processing return a state as the spec describes it
  (\<^const>\<open>spectator_state\<close>), the build returns, the queue id it returns is None, and
  the page parameters hold \<^verbatim>\<open>is_spectator\<close> true, \<^verbatim>\<open>no_event_queue\<close>
  true and an empty \<^verbatim>\<open>bot_types\<close> list.
\<close>

theorem spectator_page_params:
  assumes fetch: "fetch_initial_state_data e None home_realm PNone PNone False
                    (PBool True) (PBool True) False False False = Inr state"
    and post: "post_process_state e None state False = Inr ret"
    and ok: "spectator_state ret"
  shows "\<exists>pp. build_page_params_for_home_page_load e s mc store request None home_realm
                insecure_desktop_app narrow None narrow_topic
                first_in_realm prompt_for_invites needs_tutorial = Inr (PNone, pp) \<and>
              map_of pp ''is_spectator'' = Some (PBool True) \<and>
              map_of pp ''no_event_queue'' = Some (PBool True) \<and>
              map_of pp ''bot_types'' = Some (PList [])"
proof -
  let ?computed = "computed_page_params e s mc store None home_realm
                     insecure_desktop_app first_in_realm prompt_for_invites needs_tutorial"
  have reg: "register_state e request None home_realm narrow = Inr ret"
    using fetch post
    by (simp add: register_state_def getitem_def client_capabilities_def)
  from ok obtain us lang where
    us: "map_of ret ''user_settings'' = Some (PDict us)" and
    lang: "map_of us ''default_language'' = Some lang"
    by (auto simp: spectator_state_def split: option.splits pyval.splits)
  from lang have sub: "subscript (PDict us) ''default_language'' = Inr lang"
    by (simp add: subscript_def getitem_def)
  from ok have qid: "map_of ret ''queue_id'' = Some PNone"
    and free: "map_of ret ''is_spectator'' = None" "map_of ret ''no_event_queue'' = None"
      "map_of ret ''bot_types'' = None"
    by (simp_all add: spectator_state_def)
  have "build_page_params_for_home_page_load e s mc store request None home_realm
          insecure_desktop_app narrow None narrow_topic
          first_in_realm prompt_for_invites needs_tutorial =
        Inr (PNone,
             AList.update ''translation_data''
               (get_language_translation_data e
                  (get_and_set_request_language e request lang
                     (get_language_from_path e (path_info request))))
               (merge_register ?computed ret))"
    by (rule build_returns [OF reg us sub qid]) simp
  then show ?thesis
    using free
    by (simp add: update_conv' map_of_merge_register computed_page_params_spectator)
qed

theorem spectator_page_params_witness:
  "fetch_initial_state_data ex_env None ex_realm PNone PNone False
     (PBool True) (PBool True) False False False = Inr ((''queue_id'', PNone) # ex_state) \<and>
   post_process_state ex_env None ((''queue_id'', PNone) # ex_state) False =
     Inr ((''queue_id'', PNone) # ex_state) \<and>
   spectator_state ((''queue_id'', PNone) # ex_state) \<and>
   (\<exists>pp. build_page_params_for_home_page_load ex_env ex_settings ex_consts ex_store
            ex_request None ex_realm False [] None None False False False = Inr (PNone, pp) \<and>
          map_of pp ''is_spectator'' = Some (PBool True) \<and>
          map_of pp ''no_event_queue'' = Some (PBool True) \<and>
          map_of pp ''bot_types'' = Some (PList []))"
proof -
  have fetch: "fetch_initial_state_data ex_env None ex_realm PNone PNone False
     (PBool True) (PBool True) False False False = Inr ((''queue_id'', PNone) # ex_state)"
    by (simp add: ex_env_def)
  have post: "post_process_state ex_env None ((''queue_id'', PNone) # ex_state) False =
     Inr ((''queue_id'', PNone) # ex_state)"
    by (simp add: ex_env_def)
  have ok: "spectator_state ((''queue_id'', PNone) # ex_state)"
    by (simp add: spectator_state_def ex_state_def)
  from spectator_page_params [OF fetch post ok] fetch post ok show ?thesis
    by blast
qed

text \<open>
  C9. The keys of the registration or fetch result are written after the computed
  fields. In the page parameters of a returned build, every key of that result has the
  result's value, a field named like a computed one (such as \<^verbatim>\<open>is_spectator\<close>)
  included, except the keys written later: \<^verbatim>\<open>translation_data\<close> and, with a
  narrow stream, \<^verbatim>\<open>narrow_stream\<close>, \<^verbatim>\<open>narrow\<close>, \<^verbatim>\<open>max_message_id\<close>,
  \<^verbatim>\<open>narrow_topic\<close> when a topic is given, and \<^verbatim>\<open>user_settings\<close>, which is
  then the result's dict with only \<^verbatim>\<open>enable_desktop_notifications\<close> rewritten.
  Every computed field whose name is not a key of the result keeps its computed value.
\<close>

theorem registration_keys_override_computed:
  assumes "build_page_params_for_home_page_load e s mc store request user_profile home_realm
             insecure_desktop_app narrow narrow_stream narrow_topic
             first_in_realm prompt_for_invites needs_tutorial = Inr (queue_id, pp)"
  shows "\<exists>ret.
           register_state e request user_profile home_realm narrow = Inr ret \<and>
           (\<forall>k v. map_of ret k = Some v \<and> k \<noteq> ''translation_data'' \<and>
                  (narrow_stream \<noteq> None \<longrightarrow>
                     k \<noteq> ''narrow_stream'' \<and> k \<noteq> ''narrow'' \<and> k \<noteq> ''max_message_id'' \<and>
                     k \<noteq> ''user_settings'' \<and> (narrow_topic \<noteq> None \<longrightarrow> k \<noteq> ''narrow_topic''))
                  \<longrightarrow> map_of pp k = Some v) \<and>
           (narrow_stream \<noteq> None \<longrightarrow>
              (\<exists>d. map_of ret ''user_settings'' = Some (PDict d) \<and>
                    map_of pp ''user_settings'' =
                      Some (PDict (AList.update ''enable_desktop_notifications''
                                     (PBool False) d)))) \<and>
           (\<forall>k v. map_of ret k = None \<and>
                  map_of (computed_page_params e s mc store user_profile home_realm
                            insecure_desktop_app first_in_realm prompt_for_invites
                            needs_tutorial) k = Some v
                  \<longrightarrow> map_of pp k = Some v)"
proof -
  let ?computed = "computed_page_params e s mc store user_profile home_realm
                     insecure_desktop_app first_in_realm prompt_for_invites needs_tutorial"
  let ?merged = "\<lambda>ret. merge_register ?computed ret"
  from assms obtain ret us lang pp1 where
    ret: "register_state e request user_profile home_realm narrow = Inr ret" and
    "map_of ret ''user_settings'' = Some us" and
    "subscript us ''default_language'' = Inr lang" and
    "map_of ret ''queue_id'' = Some queue_id" and
    over: "(case narrow_stream of
              None \<Rightarrow> Inr (?merged ret)
            | Some stream \<Rightarrow>
                narrow_override (messages e) (?merged ret) stream narrow_topic narrow) =
           Inr pp1" and
    pp: "pp = AList.update ''translation_data''
                (get_language_translation_data e
                   (get_and_set_request_language e request lang
                      (get_language_from_path e (path_info request))))
                pp1"
    by (rule build_InrE)
  have frame: "map_of pp1 k = map_of (?merged ret) k"
    if "narrow_stream \<noteq> None \<longrightarrow>
          k \<noteq> ''narrow_stream'' \<and> k \<noteq> ''narrow'' \<and> k \<noteq> ''max_message_id'' \<and>
          k \<noteq> ''user_settings'' \<and> (narrow_topic \<noteq> None \<longrightarrow> k \<noteq> ''narrow_topic'')" for k
  proof (cases narrow_stream)
    case None
    with over show ?thesis by simp
  next
    case (Some stream)
    with over have "narrow_override (messages e) (?merged ret) stream narrow_topic narrow =
                      Inr pp1"
      by simp
    then show ?thesis
      by (rule narrow_override_frame) (use that Some in auto)
  qed
  have reg: "map_of pp k = Some v"
    if "map_of ret k = Some v" "k \<noteq> ''translation_data''"
       "narrow_stream \<noteq> None \<longrightarrow>
          k \<noteq> ''narrow_stream'' \<and> k \<noteq> ''narrow'' \<and> k \<noteq> ''max_message_id'' \<and>
          k \<noteq> ''user_settings'' \<and> (narrow_topic \<noteq> None \<longrightarrow> k \<noteq> ''narrow_topic'')" for k v
    using that frame [of k] by (simp add: pp update_conv' map_of_merge_register)
  have comp: "map_of pp k = Some v"
    if "map_of ret k = None" "map_of ?computed k = Some v" for k v
  proof -
    from that(2) have "map_of ?computed k \<noteq> None" by simp
    from computed_page_params_keys [OF this] have
      keys: "k \<noteq> ''translation_data'' \<and> k \<noteq> ''narrow_stream'' \<and> k \<noteq> ''narrow_topic'' \<and>
             k \<noteq> ''narrow'' \<and> k \<noteq> ''max_message_id'' \<and> k \<noteq> ''user_settings''" .
    from keys have pre: "narrow_stream \<noteq> None \<longrightarrow>
          k \<noteq> ''narrow_stream'' \<and> k \<noteq> ''narrow'' \<and> k \<noteq> ''max_message_id'' \<and>
          k \<noteq> ''user_settings'' \<and> (narrow_topic \<noteq> None \<longrightarrow> k \<noteq> ''narrow_topic'')"
      by (intro conjI impI) (elim conjE, assumption)+
    from keys have td: "k \<noteq> ''translation_data''"
      by (rule conjunct1)
    have "map_of pp k = map_of pp1 k"
      using td by (simp add: pp update_conv')
    also have "\<dots> = map_of (?merged ret) k"
      by (rule frame [OF pre])
    also have "\<dots> = Some v"
      using that by (simp add: map_of_merge_register)
    finally show ?thesis .
  qed
  have us: "\<exists>d. map_of ret ''user_settings'' = Some (PDict d) \<and>
                map_of pp ''user_settings'' =
                  Some (PDict (AList.update ''enable_desktop_notifications'' (PBool False) d))"
    if "narrow_stream \<noteq> None"
  proof -
    from that obtain stream where "narrow_stream = Some stream" by auto
    with over have "narrow_override (messages e) (?merged ret) stream narrow_topic narrow =
                      Inr pp1"
      by simp
    from narrow_override_user_settings [OF this] obtain d where
      d: "map_of (?merged ret) ''user_settings'' = Some (PDict d)" and
      pp1: "map_of pp1 ''user_settings'' =
              Some (PDict (AList.update ''enable_desktop_notifications'' (PBool False) d))"
      by blast
    have "map_of ?computed ''user_settings'' = None"
      by (rule computed_page_params_none)
    with d have "map_of ret ''user_settings'' = Some (PDict d)"
      by (simp add: map_of_merge_register split: option.splits)
    with pp1 show ?thesis by (simp add: pp update_conv')
  qed
  have main: "register_state e request user_profile home_realm narrow = Inr ret \<and>
           (\<forall>k v. map_of ret k = Some v \<and> k \<noteq> ''translation_data'' \<and>
                  (narrow_stream \<noteq> None \<longrightarrow>
                     k \<noteq> ''narrow_stream'' \<and> k \<noteq> ''narrow'' \<and> k \<noteq> ''max_message_id'' \<and>
                     k \<noteq> ''user_settings'' \<and> (narrow_topic \<noteq> None \<longrightarrow> k \<noteq> ''narrow_topic''))
                  \<longrightarrow> map_of pp k = Some v) \<and>
           (narrow_stream \<noteq> None \<longrightarrow>
              (\<exists>d. map_of ret ''user_settings'' = Some (PDict d) \<and>
                    map_of pp ''user_settings'' =
                      Some (PDict (AList.update ''enable_desktop_notifications''
                                     (PBool False) d)))) \<and>
           (\<forall>k v. map_of ret k = None \<and> map_of ?computed k = Some v
                  \<longrightarrow> map_of pp k = Some v)"
  proof (intro conjI allI impI)
    show "register_state e request user_profile home_realm narrow = Inr ret"
      by (rule ret)
  next
    fix k v
    assume a: "map_of ret k = Some v \<and> k \<noteq> ''translation_data'' \<and>
                  (narrow_stream \<noteq> None \<longrightarrow>
                     k \<noteq> ''narrow_stream'' \<and> k \<noteq> ''narrow'' \<and> k \<noteq> ''max_message_id'' \<and>
                     k \<noteq> ''user_settings'' \<and> (narrow_topic \<noteq> None \<longrightarrow> k \<noteq> ''narrow_topic''))"
    from a have 1: "map_of ret k = Some v"
      by (rule conjunct1)
    from a have 2: "k \<noteq> ''translation_data''"
      by (rule conjunct1 [OF conjunct2])
    from a have 3: "narrow_stream \<noteq> None \<longrightarrow>
                     k \<noteq> ''narrow_stream'' \<and> k \<noteq> ''narrow'' \<and> k \<noteq> ''max_message_id'' \<and>
                     k \<noteq> ''user_settings'' \<and> (narrow_topic \<noteq> None \<longrightarrow> k \<noteq> ''narrow_topic'')"
      by (rule conjunct2 [OF conjunct2])
    from 1 2 3 show "map_of pp k = Some v"
      by (rule reg)
  next
    assume "narrow_stream \<noteq> None"
    then show "\<exists>d. map_of ret ''user_settings'' = Some (PDict d) \<and>
                    map_of pp ''user_settings'' =
                      Some (PDict (AList.update ''enable_desktop_notifications''
                                     (PBool False) d))"
      by (rule us)
  next
    fix k v
    assume a: "map_of ret k = None \<and> map_of ?computed k = Some v"
    from a have 1: "map_of ret k = None"
      by (rule conjunct1)
    from a have 2: "map_of ?computed k = Some v"
      by (rule conjunct2)
    from 1 2 show "map_of pp k = Some v"
      by (rule comp)
  qed
  show ?thesis
    by (rule exI [of _ ret]) (rule main)
qed

theorem registration_keys_override_computed_witness:
  "\<exists>queue_id pp.
     build_page_params_for_home_page_load ex_colliding_env ex_settings ex_consts ex_store
       ex_request (Some ex_owner) ex_realm False [] None None False False False =
       Inr (queue_id, pp) \<and>
     map_of pp ''is_spectator'' = Some (PBool True) \<and>
     map_of pp ''realm_name'' = Some (PStr ''Zulip'') \<and>
     map_of pp ''no_event_queue'' = Some (PBool False)"
proof -
  let ?ret = "(''is_spectator'', PBool True) # (''queue_id'', PStr ''1:0'') # ex_state"
  let ?computed = "computed_page_params ex_colliding_env ex_settings ex_consts ex_store
                     (Some ex_owner) ex_realm False False False False"
  let ?pp = "AList.update ''translation_data''
               (get_language_translation_data ex_colliding_env
                  (get_and_set_request_language ex_colliding_env ex_request (PStr ''en'')
                     (get_language_from_path ex_colliding_env (path_info ex_request))))
               (merge_register ?computed ?ret)"
  have reg: "register_state ex_colliding_env ex_request (Some ex_owner) ex_realm [] = Inr ?ret"
    by (simp add: register_state_def ex_colliding_env_def ex_env_def)
  have us: "map_of ?ret ''user_settings'' =
              Some (PDict [(''default_language'', PStr ''en''),
                           (''enable_desktop_notifications'', PBool True)])"
    by (simp add: ex_state_def)
  have lang: "subscript (PDict [(''default_language'', PStr ''en''),
                                (''enable_desktop_notifications'', PBool True)])
                ''default_language'' = Inr (PStr ''en'')"
    by (simp add: subscript_def getitem_def)
  have qid: "map_of ?ret ''queue_id'' = Some (PStr ''1:0'')"
    by simp
  have build: "build_page_params_for_home_page_load ex_colliding_env ex_settings ex_consts
                 ex_store ex_request (Some ex_owner) ex_realm False [] None None
                 False False False = Inr (PStr ''1:0'', ?pp)"
    by (rule build_returns [OF reg us lang qid]) simp
  from registration_keys_override_computed [OF build] obtain ret where
    ret: "register_state ex_colliding_env ex_request (Some ex_owner) ex_realm [] = Inr ret" and
    keys: "\<forall>k v. map_of ret k = Some v \<and> k \<noteq> ''translation_data'' \<and>
                  ((None :: Stream option) \<noteq> None \<longrightarrow>
                     k \<noteq> ''narrow_stream'' \<and> k \<noteq> ''narrow'' \<and> k \<noteq> ''max_message_id'' \<and>
                     k \<noteq> ''user_settings'' \<and>
                     ((None :: string option) \<noteq> None \<longrightarrow> k \<noteq> ''narrow_topic''))
                  \<longrightarrow> map_of ?pp k = Some v" and
    "(None :: Stream option) \<noteq> None \<longrightarrow>
              (\<exists>d. map_of ret ''user_settings'' = Some (PDict d) \<and>
                    map_of ?pp ''user_settings'' =
                      Some (PDict (AList.update ''enable_desktop_notifications''
                                     (PBool False) d)))" and
    comp: "\<forall>k v. map_of ret k = None \<and> map_of ?computed k = Some v
                  \<longrightarrow> map_of ?pp k = Some v"
    by (elim exE conjE) (rule that)
  from ret reg have eq: "ret = ?ret" by simp
  have a: "map_of ?pp ''is_spectator'' = Some (PBool True)"
    using keys [rule_format, of "''is_spectator''" "PBool True"] by (simp add: eq)
  have b: "map_of ?pp ''realm_name'' = Some (PStr ''Zulip'')"
    using keys [rule_format, of "''realm_name''" "PStr ''Zulip''"]
    by (simp add: eq ex_state_def)
  have c: "map_of ?pp ''no_event_queue'' = Some (PBool False)"
    using comp [rule_format, of "''no_event_queue''" "PBool False"]
    by (simp add: eq ex_state_def computed_page_params_def Let_def)
  from build a b c show ?thesis by (intro exI conjI)
qed

end
